theory Spec2Isabelle
  imports Complex_Main
begin

unbundle bit_operations_syntax

section \<open>Python values, exceptions and text helpers\<close>

text \<open>
  The program \<^verbatim>\<open>simulate_nmea.py\<close> reads attributes of the object that
  \<^verbatim>\<open>pynmea2.parse\<close> returns. The values it can meet there are \<^verbatim>\<open>None\<close>,
  a string, a float and a \<^verbatim>\<open>datetime.time\<close> (hour, minute, second).
  A finite float is represented by the exact rational it denotes: rounding, infinities and
  NaN are outside this model.
\<close>

datatype pyval =
    PyNone
  | PyStr string
  | PyFloat rat
  | PyTime nat nat nat


text \<open>The subclasses of \<^verbatim>\<open>Exception\<close> that occur.\<close>

datatype exn =
    ParseError
  | ChecksumError
  | SentenceTypeError
  | AttributeError
  | ValueError
  | TypeError
  | IndexError

definition ord :: "char \<Rightarrow> nat" where
  "ord c = of_char c"

definition is_digit :: "char \<Rightarrow> bool" where
  "is_digit c = (48 \<le> ord c \<and> ord c \<le> 57)"

definition is_word :: "char \<Rightarrow> bool" where
  \<comment> \<open>the class \<^verbatim>\<open>\w\<close> on ASCII text\<close>
  "is_word c = (is_digit c \<or> (65 \<le> ord c \<and> ord c \<le> 90) \<or> (97 \<le> ord c \<and> ord c \<le> 122) \<or> ord c = 95)"

definition is_space :: "char \<Rightarrow> bool" where
  \<comment> \<open>the class \<^verbatim>\<open>\s\<close> and the characters \<^verbatim>\<open>str.strip()\<close> removes, on ASCII text\<close>
  "is_space c = ((9 \<le> ord c \<and> ord c \<le> 13) \<or> (28 \<le> ord c \<and> ord c \<le> 32))"

definition is_hex :: "char \<Rightarrow> bool" where
  \<comment> \<open>\<^verbatim>\<open>[A-F0-9]\<close> under \<^verbatim>\<open>re.IGNORECASE\<close>\<close>
  "is_hex c = (is_digit c \<or> (65 \<le> ord c \<and> ord c \<le> 70) \<or> (97 \<le> ord c \<and> ord c \<le> 102))"

definition upper :: "char \<Rightarrow> char" where
  "upper c = (if 97 \<le> ord c \<and> ord c \<le> 122 then char_of (ord c - 32) else c)"

definition digit_val :: "char \<Rightarrow> nat" where
  "digit_val c = ord c - 48"

definition hex_val :: "char \<Rightarrow> nat" where
  "hex_val c = (if is_digit c then ord c - 48 else ord (upper c) - 55)"

definition digits_val :: "string \<Rightarrow> nat" where
  "digits_val s = foldl (\<lambda>n c. 10 * n + digit_val c) 0 s"

definition py_strip :: "string \<Rightarrow> string" where
  \<comment> \<open>\<^verbatim>\<open>str.strip()\<close>\<close>
  "py_strip s = rev (dropWhile is_space (rev (dropWhile is_space s)))"

fun py_split :: "char \<Rightarrow> string \<Rightarrow> string list" where
  \<comment> \<open>\<^verbatim>\<open>s.split(sep)\<close> for a one-character separator\<close>
  "py_split sep [] = [[]]"
| "py_split sep (c # cs) =
     (if c = sep then [] # py_split sep cs
      else (case py_split sep cs of [] \<Rightarrow> [[c]] | f # fs \<Rightarrow> (c # f) # fs))"

fun nat_str :: "nat \<Rightarrow> string" where
  \<comment> \<open>the decimal rendering of a natural number\<close>
  "nat_str n = (if n < 10 then [char_of (48 + n)] else nat_str (n div 10) @ [char_of (48 + n mod 10)])"

definition fmt02d :: "nat \<Rightarrow> string" where
  \<comment> \<open>the format \<^verbatim>\<open>{:02d}\<close>: at least two digits, padded with zeros\<close>
  "fmt02d n = (if n < 10 then CHR ''0'' # nat_str n else nat_str n)"

definition unsigned_decimal :: "string \<Rightarrow> rat option" where
  \<comment> \<open>digits with an optional fraction: \<^verbatim>\<open>12\<close>, \<^verbatim>\<open>12.5\<close>, \<^verbatim>\<open>12.\<close>, \<^verbatim>\<open>.5\<close>\<close>
  "unsigned_decimal s =
     (let ip = takeWhile is_digit s; r = dropWhile is_digit s in
      case r of
        [] \<Rightarrow> if ip = [] then None else Some (of_nat (digits_val ip))
      | c # fp \<Rightarrow>
          if c = CHR ''.'' \<and> list_all is_digit fp \<and> (ip \<noteq> [] \<or> fp \<noteq> [])
          then Some (of_nat (digits_val ip) + of_nat (digits_val fp) / 10 ^ length fp)
          else None)"

definition float_of_string :: "string \<Rightarrow> rat option" where
  \<comment> \<open>\<^verbatim>\<open>float(s)\<close> on a string: surrounding blanks, an optional sign, a decimal
      literal. Exponents, underscores and the spellings of infinity and NaN are not covered.\<close>
  "float_of_string s =
     (case py_strip s of
        [] \<Rightarrow> None
      | c # cs \<Rightarrow>
          if c = CHR ''-'' then map_option uminus (unsigned_decimal cs)
          else if c = CHR ''+'' then unsigned_decimal cs
          else unsigned_decimal (c # cs))"

fun py_float :: "pyval \<Rightarrow> exn + rat" where
  \<comment> \<open>\<^verbatim>\<open>float(v)\<close>\<close>
  "py_float (PyFloat r) = Inr r"
| "py_float (PyStr s) = (case float_of_string s of None \<Rightarrow> Inl ValueError | Some r \<Rightarrow> Inr r)"
| "py_float PyNone = Inl TypeError"
| "py_float (PyTime h m s) = Inl TypeError"

fun frac_digits :: "nat \<Rightarrow> nat \<Rightarrow> nat \<Rightarrow> string" where
  \<comment> \<open>up to \<open>k\<close> decimal digits of \<open>n / d\<close> for \<open>n < d\<close>, stopping when nothing remains\<close>
  "frac_digits 0 n d = []"
| "frac_digits (Suc k) n d =
     (if n = 0 then []
      else char_of (48 + (10 * n) div d) # frac_digits k ((10 * n) mod d) d)"

definition float_str :: "rat \<Rightarrow> string" where
  \<comment> \<open>\<^verbatim>\<open>str(x)\<close> of a float, exact for short finite decimals such as \<^verbatim>\<open>545.4\<close>\<close>
  "float_str r =
     (let (p, q) = quotient_of \<bar>r\<bar>;
          ip = nat p div nat q;
          fd = frac_digits 17 (nat p mod nat q) (nat q)
      in (if r < 0 then ''-'' else []) @ nat_str ip @ ''.'' @ (if fd = [] then ''0'' else fd))"

fun py_str :: "pyval \<Rightarrow> string" where
  \<comment> \<open>\<^verbatim>\<open>str(v)\<close>\<close>
  "py_str PyNone = ''None''"
| "py_str (PyStr s) = s"
| "py_str (PyFloat r) = float_str r"
| "py_str (PyTime h m s) = fmt02d h @ '':'' @ fmt02d m @ '':'' @ fmt02d s"

section \<open>The sentence parser \<^verbatim>\<open>parse_nmea\<close>\<close>

text \<open>
  The object returned by the library is used through five attributes only. It is
  modelled by what reading each of them gives: a value, or an exception.
\<close>

datatype attr = Sentence_type | Timestamp | Latitude | Longitude | Altitude

type_synonym msg = "attr \<Rightarrow> exn + pyval"

type_synonym gps_fix = "string \<times> rat \<times> rat \<times> rat"

definition getattr_default :: "msg \<Rightarrow> attr \<Rightarrow> pyval \<Rightarrow> exn + pyval" where
  \<comment> \<open>\<^verbatim>\<open>getattr(msg, name, default)\<close>: only \<^verbatim>\<open>AttributeError\<close> gives the default\<close>
  "getattr_default m a d =
     (case m a of
        Inl e \<Rightarrow> if e = AttributeError then Inr d else Inl e
      | Inr v \<Rightarrow> Inr v)"

definition time_text :: "pyval \<Rightarrow> string" where
  \<comment> \<open>lines 41-44: the three fields of a time object, zero-padded; for any other value
      reading \<^verbatim>\<open>ts.hour\<close> raises and \<^verbatim>\<open>str(ts)\<close> is taken\<close>
  "time_text ts =
     (case ts of
        PyTime h m s \<Rightarrow> fmt02d h @ '':'' @ fmt02d m @ '':'' @ fmt02d s
      | _ \<Rightarrow> py_str ts)"

definition float_or_none :: "exn + pyval \<Rightarrow> exn + rat option" where
  \<comment> \<open>\<^verbatim>\<open>float(x) if x not in (None, "") else None\<close>, where reading \<open>x\<close> may raise\<close>
  "float_or_none a =
     (case a of
        Inl e \<Rightarrow> Inl e
      | Inr v \<Rightarrow>
          if v \<noteq> PyNone \<and> v \<noteq> PyStr []
          then (case py_float v of Inl e \<Rightarrow> Inl e | Inr r \<Rightarrow> Inr (Some r))
          else Inr None)"

definition coordinates :: "msg \<Rightarrow> exn + (rat option \<times> rat option \<times> rat option)" where
  \<comment> \<open>lines 50-52, evaluated in order; the first exception ends the block\<close>
  "coordinates m =
     (case float_or_none (m Latitude) of
        Inl e \<Rightarrow> Inl e
      | Inr lat \<Rightarrow>
          (case float_or_none (m Longitude) of
             Inl e \<Rightarrow> Inl e
           | Inr lon \<Rightarrow>
               (case float_or_none (getattr_default m Altitude PyNone) of
                  Inl e \<Rightarrow> Inl e
                | Inr alt \<Rightarrow> Inr (lat, lon, alt))))"

definition gga_names :: "pyval list" where
  "gga_names = [PyStr ''GGA'', PyStr ''GNGGA'', PyStr ''GPGGA'']"

definition parse_nmea :: "(string \<Rightarrow> exn + msg) \<Rightarrow> string \<Rightarrow> exn + gps_fix option" where
  \<comment> \<open>The first argument is \<^verbatim>\<open>pynmea2.parse\<close>. \<open>Inr None\<close> is the return value
      \<^verbatim>\<open>None\<close>, \<open>Inr (Some f)\<close> the returned tuple, \<open>Inl e\<close> an exception that
      leaves the function.\<close>
  "parse_nmea parse line =
     (case parse line of
        Inl e \<Rightarrow> Inr None
      | Inr m \<Rightarrow>
          (case m Sentence_type of
             Inl e \<Rightarrow> Inl e
           | Inr st \<Rightarrow>
               if st \<in> set gga_names then
                 (case getattr_default m Timestamp PyNone of
                    Inl e \<Rightarrow> Inl e
                  | Inr ts \<Rightarrow>
                      let time_str = (if ts \<noteq> PyNone then time_text ts else []) in
                      (case coordinates m of
                         Inl e \<Rightarrow> Inr None
                       | Inr (None, _, _) \<Rightarrow> Inr None
                       | Inr (Some lat, None, _) \<Rightarrow> Inr None
                       | Inr (Some lat, Some lon, None) \<Rightarrow> Inr None
                       | Inr (Some lat, Some lon, Some alt) \<Rightarrow> Inr (Some (time_str, lat, lon, alt))))
               else Inr None))"

section \<open>The library function \<^verbatim>\<open>pynmea2.parse\<close>\<close>

text \<open>
  \<^verbatim>\<open>pynmea2\<close> is a third-party package that the program imports; it is not part of
  the repository. Facts about \<^verbatim>\<open>parse_nmea\<close> alone are stated for every function in
  the place of \<^verbatim>\<open>pynmea2.parse\<close>. Facts about concrete sentences need the library, which
  is modelled here after \<^verbatim>\<open>NMEASentence.parse\<close>, on ASCII text:
  \<^item> the line is matched against the sentence pattern: optional blanks, an optional
    \<^verbatim>\<open>$\<close>, a sentence type (proprietary \<^verbatim>\<open>P\w{3}\<close>, query
    \<^verbatim>\<open>\w{4}Q,\w{3}\<close> or talker \<^verbatim>\<open>\w{5},\<close>, tried in this order), the data up
    to the first \<^verbatim>\<open>*\<close>, an optional checksum of two hexadecimal digits, and blanks;
    a line that does not match raises \<^verbatim>\<open>ParseError\<close>;
  \<^item> a checksum that is present must be the exclusive-or of the characters between
    \<^verbatim>\<open>$\<close> and \<^verbatim>\<open>*\<close>, otherwise \<^verbatim>\<open>ChecksumError\<close> is raised;
  \<^item> a talker sentence has a two-character talker and a three-character sentence type,
    which must be registered, otherwise \<^verbatim>\<open>SentenceTypeError\<close> is raised;
  \<^item> a proprietary sentence has a manufacturer and data, and no sentence type. The
    vendor classes that the library registers for some manufacturers are not modelled.
\<close>

datatype sentence =
    TalkerSentence string string "string list"
  | QuerySentence string string string
  | ProprietarySentence string "string list"

definition proprietary_prefix :: "string \<Rightarrow> bool" where
  "proprietary_prefix s = (4 \<le> length s \<and> upper (hd s) = CHR ''P'' \<and> list_all is_word (take 3 (tl s)))"

definition query_prefix :: "string \<Rightarrow> bool" where
  "query_prefix s =
     (9 \<le> length s \<and> list_all is_word (take 4 s) \<and> upper (s ! 4) = CHR ''Q'' \<and>
      s ! 5 = CHR '','' \<and> list_all is_word (take 3 (drop 6 s)))"

definition talker_prefix :: "string \<Rightarrow> bool" where
  "talker_prefix s = (6 \<le> length s \<and> list_all is_word (take 5 s) \<and> s ! 5 = CHR '','')"

definition sentence_type_len :: "string \<Rightarrow> nat option" where
  \<comment> \<open>the length of the text matched by the group \<^verbatim>\<open>sentence_type\<close>\<close>
  "sentence_type_len s =
     (if proprietary_prefix s then Some 4
      else if query_prefix s then Some 9
      else if talker_prefix s then Some 6
      else None)"

definition checksum_re :: "string \<Rightarrow> nat option option" where
  \<comment> \<open>What follows the data: nothing, or \<^verbatim>\<open>*HH\<close> and blanks. The outer \<open>None\<close>
      is a failed match, \<open>Some None\<close> a sentence without checksum.\<close>
  "checksum_re t =
     (case t of
        [] \<Rightarrow> Some None
      | star # t1 \<Rightarrow>
          (case t1 of
             h1 # h2 # ws \<Rightarrow>
               if is_hex h1 \<and> is_hex h2 \<and> list_all is_space ws
               then Some (Some (16 * hex_val h1 + hex_val h2))
               else None
           | _ \<Rightarrow> None))"

definition checksum :: "string \<Rightarrow> nat" where
  \<comment> \<open>\<^verbatim>\<open>reduce(operator.xor, map(ord, nmea_str), 0)\<close>\<close>
  "checksum s = foldl (\<lambda>a c. a XOR ord c) 0 s"

definition talker_types :: "string list" where
  \<comment> \<open>Sentence types with a registered class. The library registers more; none of them
      is spelt like a member of \<open>gga_names\<close> other than \<^verbatim>\<open>GGA\<close> itself.\<close>
  "talker_types =
     [''GGA'', ''RMC'', ''GSA'', ''GSV'', ''VTG'', ''GLL'', ''ZDA'', ''GNS'', ''GST'', ''GBS'',
      ''HDT'', ''HDG'', ''HDM'', ''RMB'', ''RTE'', ''WPL'', ''BWC'', ''BOD'', ''XTE'', ''APB'',
      ''DBT'', ''DPT'', ''MTW'', ''MWV'', ''MWD'', ''VHW'', ''VLW'', ''VBW'', ''ROT'', ''RSA'',
      ''XDR'', ''TXT'', ''ALM'', ''AAM'', ''DTM'', ''GRS'']"

definition classify :: "nat \<Rightarrow> string \<Rightarrow> string \<Rightarrow> exn + sentence" where
  \<comment> \<open>the three sentence kinds, by the length of the matched sentence type\<close>
  "classify n st data_str =
     (let data = py_split (CHR '','') data_str in
      if n = 6 then
        (let talker = take 2 st; sentence = take 3 (drop 2 st) in
         if sentence \<in> set talker_types then Inr (TalkerSentence talker sentence data)
         else Inl SentenceTypeError)
      else if n = 9 \<and> data_str = [] then
        Inr (QuerySentence (take 2 st) (take 2 (drop 2 st)) (drop 6 st))
      else if n = 4 then Inr (ProprietarySentence (drop 1 st) data)
      else Inl ParseError)"

definition pynmea2_parse :: "string \<Rightarrow> exn + sentence" where
  "pynmea2_parse line =
     (let s0 = dropWhile is_space line;
          s1 = (case s0 of [] \<Rightarrow> s0 | c # r \<Rightarrow> if c = CHR ''$'' then r else s0)
      in case sentence_type_len s1 of
           None \<Rightarrow> Inl ParseError
         | Some n \<Rightarrow>
             (let st = take n s1;
                  rest = drop n s1;
                  data_str = takeWhile (\<lambda>c. c \<noteq> CHR ''*'') rest
              in case checksum_re (dropWhile (\<lambda>c. c \<noteq> CHR ''*'') rest) of
                   None \<Rightarrow> Inl ParseError
                 | Some None \<Rightarrow> classify n (map upper st) data_str
                 | Some (Some cs1) \<Rightarrow>
                     if cs1 \<noteq> checksum (st @ data_str) then Inl ChecksumError
                     else classify n (map upper st) data_str))"

subsection \<open>Attributes of a parsed sentence\<close>

definition field :: "string list \<Rightarrow> nat \<Rightarrow> string" where
  \<comment> \<open>\<^verbatim>\<open>data[i]\<close> or the empty string when the sentence is shorter\<close>
  "field data i = (if i < length data then data ! i else [])"

definition with_converter :: "(string \<Rightarrow> pyval option) \<Rightarrow> string \<Rightarrow> pyval" where
  \<comment> \<open>a declared field with a converter: blank is \<^verbatim>\<open>None\<close>, and text the converter
      refuses is returned as it is\<close>
  "with_converter conv v =
     (if v = [] then PyNone else (case conv v of None \<Rightarrow> PyStr v | Some x \<Rightarrow> x))"

definition small_int :: "string \<Rightarrow> nat option" where
  \<comment> \<open>\<^verbatim>\<open>int(s)\<close> on a slice of at most two characters, for digits only\<close>
  "small_int s = (if s \<noteq> [] \<and> list_all is_digit s then Some (digits_val s) else None)"

definition timestamp :: "string \<Rightarrow> pyval option" where
  \<comment> \<open>the converter of the time field \<^verbatim>\<open>hhmmss[.ss]\<close>; the fraction of a second is
      checked and not kept\<close>
  "timestamp s =
     (let ms_s = drop 6 s;
          ms_ok = (ms_s = [] \<or>
                   (case float_of_string ms_s of
                      None \<Rightarrow> False
                    | Some r \<Rightarrow> - 1 < r * 1000000 \<and> r * 1000000 < 1000000))
      in case (small_int (take 2 s), small_int (take 2 (drop 2 s)), small_int (take 2 (drop 4 s))) of
           (Some h, Some m, Some sec) \<Rightarrow>
             if ms_ok \<and> h < 24 \<and> m < 60 \<and> sec < 60 then Some (PyTime h m sec) else None
         | _ \<Rightarrow> None)"

definition float_field :: "string \<Rightarrow> pyval option" where
  "float_field s = map_option PyFloat (float_of_string s)"

definition dm_to_sd :: "string \<Rightarrow> exn + rat" where
  \<comment> \<open>degrees and minutes \<^verbatim>\<open>dddmm.mmmm\<close> to decimal degrees; the text must match
      \<^verbatim>\<open>^(\d+)(\d\d\.\d+)$\<close>, where \<^verbatim>\<open>$\<close> also matches before a final newline\<close>
  "dm_to_sd dm =
     (if dm = [] \<or> dm = ''0'' then Inr 0
      else
        (let s = (if last dm = char_of (10::nat) then butlast dm else dm);
             ip = takeWhile is_digit s;
             r = dropWhile is_digit s
         in case r of
              [] \<Rightarrow> Inl AttributeError
            | c # fp \<Rightarrow>
                if c = CHR ''.'' \<and> 3 \<le> length ip \<and> fp \<noteq> [] \<and> list_all is_digit fp
                then Inr (of_nat (digits_val (take (length ip - 2) ip)) +
                          (of_nat (digits_val (drop (length ip - 2) ip)) +
                           of_nat (digits_val fp) / 10 ^ length fp) / 60)
                else Inl AttributeError))"

definition signed_degrees :: "string \<Rightarrow> string \<Rightarrow> string \<Rightarrow> string \<Rightarrow> exn + pyval" where
  \<comment> \<open>the properties \<^verbatim>\<open>latitude\<close> and \<^verbatim>\<open>longitude\<close>\<close>
  "signed_degrees dm dir pos neg =
     (case dm_to_sd dm of
        Inl e \<Rightarrow> Inl e
      | Inr sd \<Rightarrow>
          if dir = pos then Inr (PyFloat sd)
          else if dir = neg then Inr (PyFloat (- sd))
          else Inr (PyFloat 0))"

fun getattr_sentence :: "sentence \<Rightarrow> msg" where
  \<comment> \<open>Attributes of a GGA sentence follow its field table: time 0, latitude 1 and 2,
      longitude 3 and 4, altitude 8. The fields of the other talker classes are not
      modelled: \<^verbatim>\<open>parse_nmea\<close> reads only the sentence type of those.\<close>
  "getattr_sentence (TalkerSentence talker st data) a =
     (case a of
        Sentence_type \<Rightarrow> Inr (PyStr st)
      | Timestamp \<Rightarrow>
          if st = ''GGA'' then Inr (with_converter timestamp (field data 0)) else Inl AttributeError
      | Latitude \<Rightarrow>
          if st = ''GGA'' then signed_degrees (field data 1) (field data 2) ''N'' ''S''
          else Inl AttributeError
      | Longitude \<Rightarrow>
          if st = ''GGA'' then signed_degrees (field data 3) (field data 4) ''E'' ''W''
          else Inl AttributeError
      | Altitude \<Rightarrow>
          if st = ''GGA'' then Inr (with_converter float_field (field data 8)) else Inl AttributeError)"
| "getattr_sentence (QuerySentence talker listener st) a =
     (case a of Sentence_type \<Rightarrow> Inr (PyStr st) | _ \<Rightarrow> Inl AttributeError)"
| "getattr_sentence (ProprietarySentence manufacturer data) a = Inl AttributeError"

definition pynmea2 :: "string \<Rightarrow> exn + msg" where
  \<comment> \<open>\<^verbatim>\<open>pynmea2.parse\<close> as \<^verbatim>\<open>parse_nmea\<close> sees it\<close>
  "pynmea2 line = (case pynmea2_parse line of Inl e \<Rightarrow> Inl e | Inr s \<Rightarrow> Inr (getattr_sentence s))"

section \<open>The storage lists and the two collectors\<close>

text \<open>
  The module keeps four global lists and prints to the console. Both are threaded
  through the functions as one record.
\<close>

datatype notice =
    PyserialMissing
  | CouldNotOpen
  | Listening
  | PointRead nat
  | Interrupted
  | UnexpectedError
  | SerialClosed
  | Collected nat
  | PointSummary nat
  | NothingToPlot
  | SavedImage
  | PlotError

record store =
  time_data :: "string list"
  lat_data :: "rat list"
  lon_data :: "rat list"
  alt_data :: "rat list"
  console :: "notice list"

definition say :: "notice \<Rightarrow> store \<Rightarrow> store" where
  "say n w = w\<lparr>console := console w @ [n]\<rparr>"

definition append_fix :: "gps_fix \<Rightarrow> store \<Rightarrow> store" where
  \<comment> \<open>lines 84-88 and 113-117: one element to each of the four lists\<close>
  "append_fix f w =
     (case f of (t, la, lo, al) \<Rightarrow>
        w\<lparr>time_data := time_data w @ [t],
          lat_data := lat_data w @ [la],
          lon_data := lon_data w @ [lo],
          alt_data := alt_data w @ [al]\<rparr>)"

text \<open>
  What one call of \<^verbatim>\<open>ser.readline()\<close> does: it returns bytes (none after the
  timeout), or raises, or the user presses Ctrl+C. A live session is given by the list of
  its reads; a session that uses up the list is ended by the user, the only way it ends
  below the cap.
\<close>

datatype read_event = Bytes string | ReadFault | CtrlC

datatype serial_env = NoSerialModule | OpenFails | Port "read_event list"

definition decode_ascii_ignore :: "string \<Rightarrow> string" where
  \<comment> \<open>\<^verbatim>\<open>.decode("ascii", errors="ignore")\<close>\<close>
  "decode_ascii_ignore b = filter (\<lambda>c. ord c < 128) b"

fun read_loop :: "(string \<Rightarrow> exn + msg) \<Rightarrow> int \<Rightarrow> read_event list \<Rightarrow> store \<Rightarrow> store" where
  \<comment> \<open>lines 77-94: the loop with its two handlers\<close>
  "read_loop parse max_points [] w =
     (if int (length (lat_data w)) < max_points then say Interrupted w else w)"
| "read_loop parse max_points (ev # evs) w =
     (if int (length (lat_data w)) < max_points then
        (case ev of
           Bytes b \<Rightarrow>
             (let raw = py_strip (decode_ascii_ignore b) in
              if raw = [] then read_loop parse max_points evs w
              else
                (case parse_nmea parse raw of
                   Inl e \<Rightarrow> say UnexpectedError w
                 | Inr None \<Rightarrow> read_loop parse max_points evs w
                 | Inr (Some f) \<Rightarrow>
                     (let w' = append_fix f w in
                      read_loop parse max_points evs (say (PointRead (length (lat_data w'))) w'))))
         | ReadFault \<Rightarrow> say UnexpectedError w
         | CtrlC \<Rightarrow> say Interrupted w)
      else w)"

definition collect_from_serial :: "(string \<Rightarrow> exn + msg) \<Rightarrow> serial_env \<Rightarrow> int \<Rightarrow> store \<Rightarrow> store" where
  "collect_from_serial parse env max_points w =
     (case env of
        NoSerialModule \<Rightarrow> say PyserialMissing w
      | OpenFails \<Rightarrow> say CouldNotOpen w
      | Port evs \<Rightarrow> say SerialClosed (read_loop parse max_points evs (say Listening w)))"

definition test_line_1 :: string where
  "test_line_1 = ''$GPGGA,123519,4807.038,N,01131.000,E,1,08,0.9,545.4,M,46.9,M,,*47''"

definition test_line_2 :: string where
  "test_line_2 = ''$GPGGA,123520,4807.123,N,01131.321,E,1,08,0.9,550.0,M,46.9,M,,*48''"

definition test_line_3 :: string where
  "test_line_3 = ''$GPGGA,123521,4807.210,N,01131.600,E,1,08,0.9,560.0,M,46.9,M,,*49''"

definition test_line_4 :: string where
  "test_line_4 = ''$GPGGA,123522,4807.350,N,01131.800,E,1,08,0.9,570.0,M,46.9,M,,*50''"

definition test_line_5 :: string where
  "test_line_5 = ''$GPGGA,123523,4807.500,N,01132.050,E,1,08,0.9,580.0,M,46.9,M,,*51''"

definition test_line_6 :: string where
  "test_line_6 = ''$GPGGA,123524,4807.720,N,01132.300,E,1,08,0.9,590.0,M,46.9,M,,*52''"

definition test_lines :: "string list" where
  \<comment> \<open>lines 102-109\<close>
  "test_lines = [test_line_1, test_line_2, test_line_3, test_line_4, test_line_5, test_line_6]"

fun collect_lines :: "(string \<Rightarrow> exn + msg) \<Rightarrow> string list \<Rightarrow> store \<Rightarrow> exn + store" where
  \<comment> \<open>lines 110-117: no handler, so an exception of \<^verbatim>\<open>parse_nmea\<close> leaves the loop\<close>
  "collect_lines parse [] w = Inr w"
| "collect_lines parse (line # ls) w =
     (case parse_nmea parse line of
        Inl e \<Rightarrow> Inl e
      | Inr None \<Rightarrow> collect_lines parse ls w
      | Inr (Some f) \<Rightarrow> collect_lines parse ls (append_fix f w))"

definition collect_from_testlines :: "(string \<Rightarrow> exn + msg) \<Rightarrow> store \<Rightarrow> exn + store" where
  "collect_from_testlines parse w = collect_lines parse test_lines w"

section \<open>Rendering and the main program\<close>

definition plot_3d :: "bool \<Rightarrow> bool \<Rightarrow> store \<Rightarrow> store" where
  \<comment> \<open>Lines 119-151. The drawing is done by \<^verbatim>\<open>matplotlib\<close>; \<open>draws\<close> tells whether
      its calls succeed. Every exception is caught and reported.\<close>
  "plot_3d draws save_png w =
     (if lat_data w = [] then say NothingToPlot w
      else if lon_data w = [] \<or> alt_data w = [] \<or> \<not> draws then say PlotError w
      else if save_png then say SavedImage w
      else w)"

record config =
  use_serial :: bool
  port :: string
  baud :: int
  max_points :: int

definition default_config :: config where
  \<comment> \<open>lines 17-20\<close>
  "default_config = \<lparr>use_serial = False, port = ''COM5'', baud = 9600, max_points = 300\<rparr>"

definition clear :: "store \<Rightarrow> store" where
  "clear w = w\<lparr>time_data := [], lat_data := [], lon_data := [], alt_data := []\<rparr>"

definition summary :: "store \<Rightarrow> exn + store" where
  \<comment> \<open>lines 165-167: one line per element of \<^verbatim>\<open>lat_data\<close>, indexing all four lists\<close>
  "summary w =
     (let n = length (lat_data w); w1 = say (Collected n) w in
      if n \<le> length (time_data w) \<and> n \<le> length (lon_data w) \<and> n \<le> length (alt_data w)
      then Inr (foldl (\<lambda>v i. say (PointSummary (i + 1)) v) w1 [0..<n])
      else Inl IndexError)"

definition main :: "(string \<Rightarrow> exn + msg) \<Rightarrow> config \<Rightarrow> serial_env \<Rightarrow> bool \<Rightarrow> store \<Rightarrow> exn + store" where
  \<comment> \<open>lines 155-169\<close>
  "main parse cfg env draws w0 =
     (case (if use_serial cfg
            then Inr (collect_from_serial parse env (max_points cfg) (clear w0))
            else collect_from_testlines parse (clear w0)) of
        Inl e \<Rightarrow> Inl e
      | Inr w1 \<Rightarrow>
          (case summary w1 of
             Inl e \<Rightarrow> Inl e
           | Inr w2 \<Rightarrow> Inr (plot_3d draws True w2)))"

definition empty_store :: store where
  "empty_store = \<lparr>time_data = [], lat_data = [], lon_data = [], alt_data = [], console = []\<rparr>"

definition fixes_of :: "store \<Rightarrow> gps_fix list" where
  \<comment> \<open>the track: the four lists read side by side\<close>
  "fixes_of w = zip (time_data w) (zip (lat_data w) (zip (lon_data w) (alt_data w)))"

definition aligned :: "store \<Rightarrow> bool" where
  "aligned w =
     (length (time_data w) = length (lat_data w) \<and>
      length (lon_data w) = length (lat_data w) \<and>
      length (alt_data w) = length (lat_data w))"

section \<open>Facts about \<^verbatim>\<open>parse_nmea\<close>\<close>

definition test_sentence_1 :: sentence where
  "test_sentence_1 =
     TalkerSentence ''GP'' ''GGA''
       [''123519'', ''4807.038'', ''N'', ''01131.000'', ''E'', ''1'', ''08'', ''0.9'',
        ''545.4'', ''M'', ''46.9'', ''M'', [], []]"

lemma float_or_none_value:
  "py_float v = Inr r \<Longrightarrow> float_or_none (Inr v) = Inr (Some r)"
  by (cases v) (auto simp: float_or_none_def float_of_string_def py_strip_def split: option.splits)

lemma parse_nmea_accepts:
  assumes "parse line = Inr m"
    and "m Sentence_type = Inr st" and "st \<in> set gga_names"
    and "getattr_default m Timestamp PyNone = Inr ts"
    and "m Latitude = Inr vlat" and "py_float vlat = Inr lat"
    and "m Longitude = Inr vlon" and "py_float vlon = Inr lon"
    and "m Altitude = Inr valt" and "py_float valt = Inr alt"
  shows "parse_nmea parse line =
           Inr (Some (if ts \<noteq> PyNone then time_text ts else [], lat, lon, alt))"
proof -
  have c: "coordinates m = Inr (Some lat, Some lon, Some alt)"
    using assms(5-10) by (simp add: coordinates_def getattr_default_def float_or_none_value)
  show ?thesis
    using assms(1-4) c by (simp add: parse_nmea_def Let_def)
qed

lemma parse_test_line_1: "pynmea2_parse test_line_1 = Inr test_sentence_1"
  unfolding test_line_1_def test_sentence_1_def by code_simp

lemma pynmea2_test_line_1: "pynmea2 test_line_1 = Inr (getattr_sentence test_sentence_1)"
  by (simp add: pynmea2_def parse_test_line_1)

lemma test_sentence_1_attributes:
  "getattr_sentence test_sentence_1 Sentence_type = Inr (PyStr ''GGA'')"
  "getattr_sentence test_sentence_1 Timestamp = Inr (PyTime 12 35 19)"
  "getattr_sentence test_sentence_1 Latitude = Inr (PyFloat (481173 / 10000))"
  "getattr_sentence test_sentence_1 Longitude = Inr (PyFloat (691 / 60))"
  "getattr_sentence test_sentence_1 Altitude = Inr (PyFloat (5454 / 10))"
  unfolding test_sentence_1_def by code_simp+

lemma time_text_12_35_19: "time_text (PyTime 12 35 19) = ''12:35:19''"
  by code_simp

lemma parse_nmea_test_line_1:
  "parse_nmea pynmea2 test_line_1 = Inr (Some (''12:35:19'', 481173 / 10000, 691 / 60, 5454 / 10))"
  using parse_nmea_accepts [where parse = pynmea2 and line = test_line_1
      and m = "getattr_sentence test_sentence_1" and st = "PyStr ''GGA''"
      and ts = "PyTime 12 35 19" and vlat = "PyFloat (481173 / 10000)"
      and vlon = "PyFloat (691 / 60)" and valt = "PyFloat (5454 / 10)"]
  by (simp add: pynmea2_test_line_1 test_sentence_1_attributes gga_names_def
      getattr_default_def time_text_12_35_19)

text \<open>
  Claim C1. When the library decodes a line to a sentence of the GGA family whose
  latitude, longitude and altitude attributes hold values that \<^verbatim>\<open>float\<close> converts,
  \<^verbatim>\<open>parse_nmea\<close> returns a fix with exactly these three numbers. The claim's example is
  the witness: the first test sentence gives latitude 48.1173, longitude 11.51666...
  and altitude 545.4.
\<close>

theorem parse_nmea_decodes:
  assumes "parse line = Inr m"
    and "m Sentence_type = Inr st" and "st \<in> set gga_names"
    and "\<forall>e. m Timestamp = Inl e \<longrightarrow> e = AttributeError"
    and "m Latitude = Inr vlat" and "py_float vlat = Inr lat"
    and "m Longitude = Inr vlon" and "py_float vlon = Inr lon"
    and "m Altitude = Inr valt" and "py_float valt = Inr alt"
  shows "\<exists>t. parse_nmea parse line = Inr (Some (t, lat, lon, alt))"
proof -
  obtain ts where ts: "getattr_default m Timestamp PyNone = Inr ts"
    using assms(4) by (cases "m Timestamp") (auto simp: getattr_default_def)
  have "parse_nmea parse line =
          Inr (Some (if ts \<noteq> PyNone then time_text ts else [], lat, lon, alt))"
    using assms(1-3) ts assms(5-10) by (rule parse_nmea_accepts)
  then show ?thesis by blast
qed

theorem parse_nmea_decodes_witness:
  "(\<exists>t. parse_nmea pynmea2 test_line_1 = Inr (Some (t, 481173 / 10000, 691 / 60, 5454 / 10))) \<and>
   \<bar>481173 / 10000 - 48.1173\<bar> < (1 / 10000 :: rat) \<and>
   \<bar>691 / 60 - 11.5167\<bar> < (1 / 10000 :: rat) \<and>
   (5454 / 10 :: rat) = 545.4"
  using parse_nmea_decodes [where parse = pynmea2 and line = test_line_1
      and m = "getattr_sentence test_sentence_1" and st = "PyStr ''GGA''"
      and vlat = "PyFloat (481173 / 10000)"
      and vlon = "PyFloat (691 / 60)" and valt = "PyFloat (5454 / 10)"]
  by (simp add: pynmea2_test_line_1 test_sentence_1_attributes gga_names_def)

text \<open>
  Claim C3. A line on which the structural parse of the library fails, whatever the
  exception, is rejected: \<^verbatim>\<open>parse_nmea\<close> returns \<^verbatim>\<open>None\<close>. The empty line and a
  sentence whose checksum does not match its content are such lines.
\<close>

theorem structural_failure_rejected:
  "parse line = Inl e \<Longrightarrow> parse_nmea parse line = Inr None"
  by (simp add: parse_nmea_def)

lemma parse_empty_line: "pynmea2_parse [] = Inl ParseError"
  by code_simp

lemma parse_test_line_2: "pynmea2_parse test_line_2 = Inl ChecksumError"
  by code_simp

theorem structural_failure_rejected_witness:
  "pynmea2 [] = Inl ParseError \<and> parse_nmea pynmea2 [] = Inr None \<and>
   pynmea2 test_line_2 = Inl ChecksumError \<and>
   parse_nmea pynmea2 test_line_2 = Inr None"
proof -
  have a: "pynmea2 [] = Inl ParseError"
    by (simp add: pynmea2_def parse_empty_line)
  have b: "pynmea2 test_line_2 = Inl ChecksumError"
    by (simp add: pynmea2_def parse_test_line_2)
  show ?thesis
    using a b structural_failure_rejected [of pynmea2 "[]" ParseError]
      structural_failure_rejected [of pynmea2 "test_line_2" ChecksumError]
    by simp
qed

end
